theory Spec2Isabelle
  imports
    Main
    "HOL-Library.Finite_Map"
    "HOL-Library.Char_ord"
    "HOL-Library.List_Lexorder"
begin

section \<open>Dynamically typed YAML values and errors\<close>

text \<open>
  The normalizers of \<^verbatim>\<open>internal/config/normalizers.go\<close> work on Go values of type
  \<^verbatim>\<open>interface{}\<close> as the YAML parser and the normalizers themselves produce them:
  \<^verbatim>\<open>nil\<close>, \<^verbatim>\<open>bool\<close>, \<^verbatim>\<open>int\<close>, \<^verbatim>\<open>string\<close>, \<^verbatim>\<open>[]interface{}\<close>, \<^verbatim>\<open>[]string\<close> and
  \<^verbatim>\<open>map[string]interface{}\<close>. A Go map is a finite map with unordered keys.
\<close>

datatype yaml =
    YNil
  | YBool bool
  | YInt int
  | YString string
  | YList "yaml list"
  | YStringList "string list"
  | YMap "(string, yaml) fmap"

text \<open>
  Go errors. \<^verbatim>\<open>KeyConflict\<close> and \<^verbatim>\<open>ParseError\<close> are the structs of the source;
  \<^verbatim>\<open>errors.New\<close> carries its message; a \<^verbatim>\<open>fmt.Errorf\<close> carries its message, or its format
  prefix and its argument unrendered (\<^verbatim>\<open>%T\<close>, \<^verbatim>\<open>%v\<close> of a value, \<^verbatim>\<open>%w\<close> of a wrapped error).
\<close>

datatype error =
    KeyConflict (Key: string) (Conflict: string)
  | ParseError string yaml
  | ErrorNew string
  | Errorf string
  | Errorf_T string yaml
  | Errorf_v string yaml
  | Errorf_w string error
  | SpuriousKeys "string fset" "string fset"

section \<open>Alias resolution and list coercion\<close>

text \<open>
  \<^verbatim>\<open>NormalizeAlias(yaml *map[string]interface{}, key, alias string) (err error)\<close>
  mutates the map behind the pointer; the model returns the map it leaves there.
\<close>

definition NormalizeAlias ::
  "(string, yaml) fmap \<Rightarrow> string \<Rightarrow> string \<Rightarrow> error + (string, yaml) fmap" where
  "NormalizeAlias yaml key alias =
     (case fmlookup yaml alias of
        None \<Rightarrow> Inr yaml
      | Some v \<Rightarrow>
          (if key |\<in>| fmdom yaml then Inl (KeyConflict key alias)
           else Inr (fmupd key v (fmdrop alias yaml))))"

text \<open>
  \<^verbatim>\<open>NormalizeList\<close>: the type assertion \<^verbatim>\<open>yaml.([]interface{})\<close> succeeds on a
  \<^verbatim>\<open>[]interface{}\<close> only; for every other value, \<^verbatim>\<open>nil\<close> included, the value is
  appended to the nil list.
\<close>

fun NormalizeList :: "yaml \<Rightarrow> yaml list" where
  "NormalizeList (YList list) = list"
| "NormalizeList yaml = [] @ [yaml]"

section \<open>Postgres object model\<close>

record Schema =
  Schema_Name :: string
  Schema_Owner :: string
  Creators :: "string list"

record Database =
  Database_Name :: string
  Database_Owner :: string
  Schemas :: "(string, Schema) fmap"

type_synonym DBMap = "(string, Database) fmap"

text \<open>A database for the examples.\<close>

definition example_db :: Database where
  "example_db = \<lparr>Database_Name = ''app'', Database_Owner = ''postgres'', Schemas = fmempty\<rparr>"

text \<open>
  \<^verbatim>\<open>maps.Keys\<close>, of the library \<^verbatim>\<open>golang.org/x/exp/maps\<close>, returns the keys of a map, each
  once, in an indeterminate order. Where the code reads the result as a set of keys
  (the known keys that \<^verbatim>\<open>NormalizeRoleOptions\<close> hands to the check of spurious keys,
  \<open>CheckSpuriousKeys_set\<close>), and where it ranges over a map
  (\<open>single_rule_any_order\<close>), the order has no effect and the model takes the keys in
  one order, \<open>maps_Keys\<close>. Where the order is observable before \<^verbatim>\<open>slices.Sort\<close>, in
  \<^verbatim>\<open>SyncOrder\<close>, \<^verbatim>\<open>maps.Keys\<close> is the parameter \<open>Keys\<close>, and the properties are stated
  for every \<open>Keys\<close> that returns each key of the map once, in whatever order.
\<close>

definition maps_Keys :: "(string, 'v) fmap \<Rightarrow> string list" where
  "maps_Keys m = sorted_list_of_fset (fmdom m)"

text \<open>
  \<^verbatim>\<open>func (m DBMap) SyncOrder(defaultName string) (out []string)\<close>. \<^verbatim>\<open>slices.Sort\<close> sorts
  in ascending order; Go compares strings bytewise and lexicographically, as the
  order on \<open>char list\<close> does. The loop appends every name but the default.
\<close>

definition SyncOrder :: "(DBMap \<Rightarrow> string list) \<Rightarrow> DBMap \<Rightarrow> string \<Rightarrow> string list" where
  "SyncOrder Keys m defaultName =
     (let names = Keys m;
          names = sort names
      in filter (\<lambda>name. defaultName \<noteq> name) names @ [defaultName])"

text \<open>
  For the examples: three databases, and a \<^verbatim>\<open>maps.Keys\<close> that returns the keys in
  descending order.
\<close>

definition example_dbs :: DBMap where
  "example_dbs =
     fmupd ''postgres'' example_db (fmupd ''billing'' example_db (fmupd ''app'' example_db fmempty))"

definition descending_Keys :: "DBMap \<Rightarrow> string list" where
  "descending_Keys m = rev (sorted_list_of_fset (fmdom m))"

section \<open>Role options\<close>

text \<open>
  \<^verbatim>\<open>strings.Split(s, " ")\<close>: the pieces of \<open>s\<close> between single spaces, empty pieces
  included; \<^verbatim>\<open>strings.HasPrefix\<close> and \<^verbatim>\<open>strings.TrimPrefix\<close>.
\<close>

fun Split_from :: "string \<Rightarrow> string \<Rightarrow> string list" where
  "Split_from cur [] = [cur]"
| "Split_from cur (c # s) =
     (if c = CHR '' '' then cur # Split_from [] s else Split_from (cur @ [c]) s)"

definition Split_space :: "string \<Rightarrow> string list" where
  "Split_space s = Split_from [] s"

definition HasPrefix :: "string \<Rightarrow> string \<Rightarrow> bool" where
  "HasPrefix s p = (take (length p) s = p)"

definition TrimPrefix :: "string \<Rightarrow> string \<Rightarrow> string" where
  "TrimPrefix s p = (if HasPrefix s p then drop (length p) s else s)"

text \<open>
  Modelled from the spec: \<^verbatim>\<open>CheckSpuriousKeys\<close> is called by the normalizers of
  \<^verbatim>\<open>normalizers.go\<close> but its body is not among the sources. The spec (4.1, rule 8):
  ``any defaulted/merged map rejects keys outside its context's allow-list, naming
  offenders and the allowed set''. The error carries the offending keys and the
  allowed keys; no error is \<open>None\<close> (Go's \<^verbatim>\<open>nil\<close>).
\<close>

definition CheckSpuriousKeys :: "(string, yaml) fmap \<Rightarrow> string list \<Rightarrow> error option" where
  "CheckSpuriousKeys yaml knownKeys =
     (let spurious = fmdom yaml |-| fset_of_list knownKeys
      in if spurious = {||} then None
         else Some (SpuriousKeys spurious (fset_of_list knownKeys)))"

text \<open>The defaults that \<^verbatim>\<open>NormalizeRoleOptions\<close> starts from, and their keys.\<close>

definition default_options :: "(string, yaml) fmap" where
  "default_options = fmap_of_list
     [(''SUPERUSER'', YBool False),
      (''INHERIT'', YBool True),
      (''CREATEROLE'', YBool False),
      (''CREATEDB'', YBool False),
      (''LOGIN'', YBool False),
      (''REPLICATION'', YBool False),
      (''BYPASSRLS'', YBool False),
      (''CONNECTION LIMIT'', YInt (- 1))]"

text \<open>The loop over the tokens of a string of options.\<close>

fun set_tokens :: "(string, yaml) fmap \<Rightarrow> string list \<Rightarrow> (string, yaml) fmap" where
  "set_tokens v [] = v"
| "set_tokens v (token # tokens) =
     (if [] = token then set_tokens v tokens
      else set_tokens
             (fmupd (TrimPrefix token ''NO'') (YBool (\<not> HasPrefix token ''NO'')) v)
             tokens)"

text \<open>
  \<^verbatim>\<open>NormalizeRoleOptions(yaml interface{}) (value map[string]interface{}, err error)\<close>.
  \<^verbatim>\<open>maps.Copy(dst, src)\<close> is \<open>dst ++\<^sub>f src\<close>. A non-nil error is \<open>Inl\<close>.
\<close>

definition NormalizeRoleOptions :: "yaml \<Rightarrow> error + (string, yaml) fmap" where
  "NormalizeRoleOptions yaml =
     (let v = default_options;
          knownKeys = maps_Keys v;
          check = (\<lambda>v. case CheckSpuriousKeys v knownKeys of
                          None \<Rightarrow> Inr v
                        | Some err \<Rightarrow> Inl err)
      in case yaml of
           YString s \<Rightarrow> check (set_tokens v (Split_space s))
         | YMap m \<Rightarrow> check (v ++\<^sub>f m)
         | YNil \<Rightarrow> Inr v
         | _ \<Rightarrow> Inl (Errorf_T ''bad type: '' yaml))"

text \<open>
  The struct \<^verbatim>\<open>config.RoleOptions\<close> with the fields that \<^verbatim>\<open>NewRoleFromRow\<close> of
  \<^verbatim>\<open>roles.go\<close> assigns, in the order of the spec.
\<close>

record RoleOptions =
  Super :: bool
  CreateRole :: bool
  CreateDB :: bool
  CanLogin :: bool
  Replication :: bool
  ByPassRLS :: bool
  Inherit :: bool
  ConnLimit :: int

text \<open>Decimal rendering of an integer (\<^verbatim>\<open>%d\<close>).\<close>

fun digits :: "nat \<Rightarrow> string" where
  "digits n =
     (if n < 10 then [''0123456789'' ! n]
      else digits (n div 10) @ [''0123456789'' ! (n mod 10)])"

declare digits.simps [simp del]

definition decimal :: "int \<Rightarrow> string" where
  "decimal i = (if i < 0 then CHR ''-'' # digits (nat (- i)) else digits (nat i))"

fun Join_space :: "string list \<Rightarrow> string" where
  "Join_space [] = []"
| "Join_space [t] = t"
| "Join_space (t # ts) = t @ '' '' @ Join_space ts"

definition bool_token :: "bool \<Rightarrow> string \<Rightarrow> string" where
  "bool_token b token = (if b then token else ''NO'' @ token)"

text \<open>
  Modelled from the spec: the tokens of the seven boolean fields in the string
  encoding. The spec (3, RoleOptions, encoding (a)): ``space-separated SQL-token
  string, token presence = true, "NO"-prefixed token = false''.
\<close>

definition bool_tokens :: "RoleOptions \<Rightarrow> string list" where
  "bool_tokens opts =
     [bool_token (Super opts) ''SUPERUSER'',
      bool_token (CreateRole opts) ''CREATEROLE'',
      bool_token (CreateDB opts) ''CREATEDB'',
      bool_token (CanLogin opts) ''LOGIN'',
      bool_token (Replication opts) ''REPLICATION'',
      bool_token (ByPassRLS opts) ''BYPASSRLS'',
      bool_token (Inherit opts) ''INHERIT'']"

text \<open>
  Modelled from the spec: the method \<^verbatim>\<open>RoleOptions.String\<close>, which \<^verbatim>\<open>roles.go\<close> calls for
  the text of its statements, is not among the sources. The spec (4.2): the options
  string of \<^verbatim>\<open>ALTER ROLE\<close> and \<^verbatim>\<open>CREATE ROLE\<close> ``is the SQL-token encoding'' of the
  options. Every field is listed: the boolean fields by their tokens, the connection
  limit by its key \<^verbatim>\<open>CONNECTION LIMIT\<close> and its value. How the limit is written is not
  in the spec; the properties of the decoder below are stated for the string of the
  boolean tokens and for every string, not for this rendering.
\<close>

definition RoleOptions_String :: "RoleOptions \<Rightarrow> string" where
  "RoleOptions_String opts =
     Join_space (bool_tokens opts @ [''CONNECTION'', ''LIMIT'', decimal (ConnLimit opts)])"


text \<open>Two values for the examples: one with the default connection limit, one without.\<close>

definition login_opts :: RoleOptions where
  "login_opts = \<lparr>Super = False, CreateRole = False, CreateDB = False, CanLogin = True,
     Replication = False, ByPassRLS = False, Inherit = True, ConnLimit = - 1\<rparr>"

definition limited_opts :: RoleOptions where
  "limited_opts = login_opts\<lparr>ConnLimit := 5\<rparr>"

section \<open>Role rules\<close>

text \<open>The loop of \<^verbatim>\<open>NormalizeStringList\<close> over the items of a \<^verbatim>\<open>[]interface{}\<close>.\<close>

fun append_strings :: "string list \<Rightarrow> yaml list \<Rightarrow> error + string list" where
  "append_strings list [] = Inr list"
| "append_strings list (YString item # items) = append_strings (list @ [item]) items"
| "append_strings list (iItem # items) = Inl (ErrorNew ''must be string'')"

definition NormalizeStringList :: "yaml \<Rightarrow> error + string list" where
  "NormalizeStringList yaml =
     (case yaml of
        YNil \<Rightarrow> Inr []
      | YString s \<Rightarrow> Inr ([] @ [s])
      | YList items \<Rightarrow> append_strings [] items
      | YStringList list \<Rightarrow> Inr list
      | _ \<Rightarrow> Inl (Errorf_v ''must be string or list of string, got '' yaml))"

text \<open>Indexing a Go map: \<^verbatim>\<open>nil\<close> for a key that is absent.\<close>

definition index :: "(string, yaml) fmap \<Rightarrow> string \<Rightarrow> yaml" where
  "index m k = (case fmlookup m k of None \<Rightarrow> YNil | Some v \<Rightarrow> v)"

text \<open>
  \<^verbatim>\<open>NormalizeRoleRule(yaml interface{}) (rule map[string]interface{}, err error)\<close>.
  Each early \<^verbatim>\<open>return\<close> with a non-nil error is \<open>Inl\<close>.
\<close>

definition NormalizeRoleRule :: "yaml \<Rightarrow> error + (string, yaml) fmap" where
  "NormalizeRoleRule yaml =
     (let rule = fmap_of_list
            [(''comment'', YString ''Managed by ldap2pg''),
             (''options'', YString []),
             (''parents'', YStringList [])];
          check = (\<lambda>rule.
            case CheckSpuriousKeys rule [''names'', ''comment'', ''parents'', ''options''] of
              None \<Rightarrow> Inr rule
            | Some err \<Rightarrow> Inl err)
      in case yaml of
           YString s \<Rightarrow> check (fmupd ''names'' (YStringList [s]) rule)
         | YMap yamlMap \<Rightarrow>
             (case NormalizeAlias yamlMap ''names'' ''name'' of
                Inl err \<Rightarrow> Inl err
              | Inr yamlMap \<Rightarrow>
             (case NormalizeAlias yamlMap ''parents'' ''parent'' of
                Inl err \<Rightarrow> Inl err
              | Inr yamlMap \<Rightarrow>
             (let rule = rule ++\<^sub>f yamlMap in
              case fmlookup rule ''names'' of
                None \<Rightarrow> Inl (ErrorNew ''missing name'')
              | Some names \<Rightarrow>
             (case NormalizeStringList names of
                Inl err \<Rightarrow> Inl err
              | Inr names \<Rightarrow>
             (let rule = fmupd ''names'' (YStringList names) rule in
              case NormalizeStringList (index rule ''parents'') of
                Inl err \<Rightarrow> Inl err
              | Inr parents \<Rightarrow>
             (let rule = fmupd ''parents'' (YStringList parents) rule in
              case NormalizeRoleOptions (index rule ''options'') of
                Inl err \<Rightarrow> Inl (Errorf_w ''options: '' err)
              | Inr opts \<Rightarrow> check (fmupd ''options'' (YMap opts) rule)))))))
         | _ \<Rightarrow> Inl (Errorf_T ''bad type: '' yaml))"

text \<open>
  Ranging over a Go map visits every entry once, in an unspecified order; the model
  visits them by ascending key.
\<close>

definition range_map :: "(string, yaml) fmap \<Rightarrow> (string \<times> yaml) list" where
  "range_map m = map (\<lambda>k. (k, index m k)) (maps_Keys m)"

text \<open>
  \<^verbatim>\<open>DuplicateRoleRules\<close>. The body of the outer loop builds one rule: \<^verbatim>\<open>name\<close> first,
  then every entry of \<^verbatim>\<open>yaml\<close> but \<^verbatim>\<open>names\<close>. The type assertion
  \<^verbatim>\<open>yaml["names"].([]string)\<close> panics on anything but a \<^verbatim>\<open>[]string\<close>: \<open>None\<close>.
\<close>

definition single_rule :: "(string, yaml) fmap \<Rightarrow> string \<Rightarrow> (string, yaml) fmap" where
  "single_rule yaml name =
     fold (\<lambda>(key, v) rule. if ''names'' = key then rule else fmupd key v rule)
       (range_map yaml) (fmupd ''name'' (YString name) fmempty)"

definition DuplicateRoleRules :: "(string, yaml) fmap \<Rightarrow> (string, yaml) fmap list option" where
  "DuplicateRoleRules yaml =
     (case fmlookup yaml ''names'' of
        Some (YStringList names) \<Rightarrow> Some ([] @ map (single_rule yaml) names)
      | _ \<Rightarrow> None)"

text \<open>
  The rule of the spec's example of name expansion, as written and as normalized.
\<close>

definition example_rule_yaml :: yaml where
  "example_rule_yaml = YMap (fmap_of_list
     [(''names'', YList [YString ''a'', YString ''b'', YString ''c'']),
      (''comment'', YString ''x''),
      (''options'', YString ''SUPERUSER'')])"

definition example_rule :: "(string, yaml) fmap" where
  "example_rule = fmap_of_list
     [(''names'', YStringList [''a'', ''b'', ''c'']),
      (''comment'', YString ''x''),
      (''parents'', YStringList []),
      (''options'', YMap (fmap_of_list
         [(''SUPERUSER'', YBool True),
          (''INHERIT'', YBool True),
          (''CREATEROLE'', YBool False),
          (''CREATEDB'', YBool False),
          (''LOGIN'', YBool False),
          (''REPLICATION'', YBool False),
          (''BYPASSRLS'', YBool False),
          (''CONNECTION LIMIT'', YInt (- 1))]))]"

section \<open>Inspection rows\<close>

text \<open>
  \<^verbatim>\<open>pgx.CollectableRow\<close> is an interface of the database driver. Of its methods,
  \<^verbatim>\<open>FieldDescriptions\<close> gives the columns of the row and \<^verbatim>\<open>Scan\<close> writes the columns
  through the pointers it is given and returns an error or \<^verbatim>\<open>nil\<close>. A pointer to a
  string field of the schema being built is the update of that field.
\<close>

type_synonym dest = "string \<Rightarrow> Schema \<Rightarrow> Schema"

record CollectableRow =
  FieldDescriptions :: "string list"
  Scan :: "dest list \<Rightarrow> Schema \<Rightarrow> Schema \<times> error option"

definition zero_Schema :: Schema where
  "zero_Schema = \<lparr>Schema_Name = [], Schema_Owner = [], Creators = []\<rparr>"

definition Name_ptr :: dest where
  "Name_ptr v s = s\<lparr>Schema_Name := v\<rparr>"

definition Owner_ptr :: dest where
  "Owner_ptr v s = s\<lparr>Schema_Owner := v\<rparr>"

text \<open>\<^verbatim>\<open>RowToSchema(row pgx.CollectableRow) (s Schema, err error)\<close>.\<close>

definition RowToSchema :: "CollectableRow \<Rightarrow> Schema \<times> error option" where
  "RowToSchema row =
     (let s = zero_Schema; n = length (FieldDescriptions row)
      in if n = 1 then Scan row [Name_ptr] s
         else if n = 2 then Scan row [Name_ptr, Owner_ptr] s
         else (s, Some (Errorf ''wrong number of returned columns'')))"

text \<open>
  A row of text columns for the examples: \<^verbatim>\<open>Scan\<close> writes the columns in order and
  fails when their number is not the number of pointers.
\<close>

fun assign_all :: "dest list \<Rightarrow> string list \<Rightarrow> Schema \<Rightarrow> Schema" where
  "assign_all (d # ds) (v # vs) s = assign_all ds vs (d v s)"
| "assign_all ds vs s = s"

definition text_row :: "string list \<Rightarrow> string list \<Rightarrow> CollectableRow" where
  "text_row columns vals =
     \<lparr>FieldDescriptions = columns,
      Scan = (\<lambda>dests s.
        if length dests = length vals then (assign_all dests vals s, None)
        else (s, Some (ErrorNew ''number of field descriptions must equal number of destinations'')))\<rparr>"

section \<open>Role reconciliation\<close>

text \<open>
  Modelled from the spec: the struct \<^verbatim>\<open>postgres.SyncQuery\<close> is not among the sources;
  its fields are those that the literals of \<^verbatim>\<open>roles.go\<close> set. The spec (3, SyncQuery):
  ``description, structured log fields, target database name (empty = default
  connection), SQL text, bound parameters''. A value of \<^verbatim>\<open>[]interface{}\<close> in the log
  fields and the parameters is a string or a \<^verbatim>\<open>RoleOptions\<close>.
\<close>

datatype arg = AString string | AOptions RoleOptions

record SyncQuery =
  Description :: string
  LogArgs :: "arg list"
  Database :: string
  Query :: string
  QueryArgs :: "arg list"

record Role =
  Name :: string
  Comment :: string
  Parents :: "string list"
  Options :: RoleOptions

text \<open>
  The methods of \<^verbatim>\<open>Role\<close> send their queries to a channel; the model returns the
  queries in the order they are sent. \<^verbatim>\<open>pgx.Identifier.Sanitize\<close> and \<^verbatim>\<open>dedent.Dedent\<close>
  belong to libraries outside the repository and are parameters.
\<close>

definition Alter :: "(string list \<Rightarrow> string) \<Rightarrow> Role \<Rightarrow> Role \<Rightarrow> SyncQuery list" where
  "Alter Sanitize r wanted =
     (let identifier = Sanitize [Name r]
      in if Options wanted \<noteq> Options r then
           [\<lparr>Description = ''Alter options.'',
             LogArgs = [AString ''role'', AString (Name r),
                        AString ''current'', AOptions (Options r),
                        AString ''wanted'', AOptions (Options wanted)],
             Database = [],
             Query = ''ALTER ROLE '' @ identifier @ '' WITH ''
                       @ RoleOptions_String (Options wanted) @ '';'',
             QueryArgs = []\<rparr>]
         else [])"

definition Create :: "(string list \<Rightarrow> string) \<Rightarrow> Role \<Rightarrow> SyncQuery list" where
  "Create Sanitize r =
     (let identifier = Sanitize [Name r]
      in [\<lparr>Description = ''Create role.'',
           LogArgs = [AString ''role'', AString (Name r)],
           Database = [],
           Query = ''CREATE ROLE '' @ identifier @ '' '' @ RoleOptions_String (Options r) @ '';'',
           QueryArgs = []\<rparr>,
          \<lparr>Description = ''Set role comment.'',
           LogArgs = [AString ''role'', AString (Name r)],
           Database = [],
           Query = ''COMMENT ON ROLE '' @ identifier @ '' IS $1;'',
           QueryArgs = [AString (Comment r)]\<rparr>])"

definition nl :: string where
  "nl = [CHR 0x0A]"

definition tab :: string where
  "tab = [CHR 0x09]"

definition terminate_sql :: string where
  "terminate_sql =
     nl @ tab @ tab @ ''SELECT pg_terminate_backend(pid)''
     @ nl @ tab @ tab @ ''FROM pg_catalog.pg_stat_activity''
     @ nl @ tab @ tab @ ''WHERE usename = $1;''
     @ nl @ tab @ tab"

definition reassign_sql :: "string \<Rightarrow> string" where
  "reassign_sql identifier =
     nl @ tab @ tab @ tab @ ''REASSIGN OWNED BY '' @ identifier @ '' TO CURRENT_USER;''
     @ nl @ tab @ tab @ tab @ ''DROP OWNED BY '' @ identifier @ '';''"

definition Drop ::
  "(string list \<Rightarrow> string) \<Rightarrow> (string \<Rightarrow> string) \<Rightarrow> Role \<Rightarrow> string list \<Rightarrow> SyncQuery list" where
  "Drop Sanitize Dedent r databases =
     (let identifier = Sanitize [Name r]
      in [\<lparr>Description = ''Terminate running sessions.'',
           LogArgs = [AString ''role'', AString (Name r)],
           Database = [],
           Query = Dedent terminate_sql,
           QueryArgs = [AString (Name r)]\<rparr>]
         @ map (\<lambda>database.
               \<lparr>Description = ''Reassign objects and purge ACL.'',
                LogArgs = [AString ''role'', AString (Name r),
                           AString ''database'', AString database],
                Database = database,
                Query = Dedent (reassign_sql identifier),
                QueryArgs = []\<rparr>) databases
         @ [\<lparr>Description = ''Drop role.'',
             LogArgs = [AString ''role'', AString (Name r)],
             Database = [],
             Query = ''DROP ROLE '' @ identifier @ '';'',
             QueryArgs = []\<rparr>])"

text \<open>
  For the examples: a sanitizer that puts the parts between double quotes, and a
  role.
\<close>

definition example_Sanitize :: "string list \<Rightarrow> string" where
  "example_Sanitize parts = [CHR 0x22] @ concat parts @ [CHR 0x22]"

definition example_role :: Role where
  "example_role = \<lparr>Name = ''alice'', Comment = ''Managed by ldap2pg'', Parents = [],
     Options = login_opts\<rparr>"

section \<open>Properties\<close>

subsection \<open>Alias resolution\<close>

text \<open>
  C4: for every mapping and every pair of a canonical key and an alias,
  \<^verbatim>\<open>NormalizeAlias\<close> returns the key-conflict error naming both keys when both are
  present; when the alias is present and the canonical key is not, it succeeds, and
  the mapping it leaves has the alias absent and the canonical key bound to the value
  the alias had: it is the input with the alias dropped and the canonical key set.
\<close>

theorem NormalizeAlias_conflict_or_move:
  "(key |\<in>| fmdom yaml \<and> alias |\<in>| fmdom yaml \<longrightarrow>
      NormalizeAlias yaml key alias = Inl (KeyConflict key alias))
   \<and> (key |\<notin>| fmdom yaml \<and> fmlookup yaml alias = Some v \<longrightarrow>
      (\<exists>yaml'. NormalizeAlias yaml key alias = Inr yaml'
         \<and> alias |\<notin>| fmdom yaml'
         \<and> fmlookup yaml' key = Some v
         \<and> yaml' = fmupd key v (fmdrop alias yaml)))"
  by (auto simp: NormalizeAlias_def fmlookup_dom_iff split: option.splits)

theorem NormalizeAlias_conflict_or_move_witness:
  "NormalizeAlias (fmupd ''roles'' (YInt 1) (fmupd ''role'' (YInt 2) fmempty)) ''roles'' ''role''
     = Inl (KeyConflict ''roles'' ''role'')
   \<and> NormalizeAlias (fmupd ''role'' (YInt 2) fmempty) ''roles'' ''role''
     = Inr (fmupd ''roles'' (YInt 2) fmempty)"
  using
    NormalizeAlias_conflict_or_move
      [of "''roles''" "fmupd ''roles'' (YInt 1) (fmupd ''role'' (YInt 2) fmempty)" "''role''"]
    NormalizeAlias_conflict_or_move
      [of "''roles''" "fmupd ''role'' (YInt 2) fmempty" "''role''" "YInt 2"]
  by (simp add: fmdrop_fmupd_same)

subsection \<open>List coercion\<close>

lemma NormalizeList_scalar:
  "NormalizeList (YBool b) = [YBool b]"
  "NormalizeList (YInt i) = [YInt i]"
  "NormalizeList (YString s) = [YString s]"
  by simp_all

lemma NormalizeList_list: "NormalizeList (YList list) = list"
  by simp

text \<open>
  What a null \<^verbatim>\<open>roles\<close> entry of a sync item becomes: one rule, \<^verbatim>\<open>nil\<close>, which
  \<^verbatim>\<open>NormalizeRoleRule\<close> rejects.
\<close>

lemma NormalizeList_nil_rule:
  "map NormalizeRoleRule (NormalizeList YNil) = [Inl (Errorf_T ''bad type: '' YNil)]"
  by (simp add: NormalizeRoleRule_def)

text \<open>
  C5: \<^verbatim>\<open>NormalizeList\<close> wraps a scalar into a one-element list and passes a
  \<^verbatim>\<open>[]interface{}\<close> through (\<open>NormalizeList_scalar\<close>, \<open>NormalizeList_list\<close>), but an
  absent or null value does not become the empty list: \<^verbatim>\<open>nil\<close> fails the type assertion
  like a scalar does and is wrapped, so the result is the one-element list holding
  \<^verbatim>\<open>nil\<close>. \<^verbatim>\<open>NormalizeStringList\<close>, next to it, has the case for \<^verbatim>\<open>nil\<close> and returns the
  empty list.
\<close>

theorem NormalizeList_nil_is_wrapped:
  "NormalizeList YNil = [YNil] \<and> NormalizeList YNil \<noteq> []
   \<and> NormalizeStringList YNil = Inr []"
  by (simp add: NormalizeStringList_def)

subsection \<open>Database sync order\<close>

lemma filter_sorted_list_of_fset:
  "filter (\<lambda>name. d \<noteq> name) (sorted_list_of_fset A) = sorted_list_of_fset (A |-| {|d|})"
proof -
  have "filter (\<lambda>name. d \<noteq> name) (sorted_list_of_set (fset A))
      = remove1 d (sorted_list_of_set (fset A))"
    by (simp add: distinct_remove1_removeAll removeAll_filter_not_eq)
  then show ?thesis
    by (simp add: sorted_list_of_fset.rep_eq sorted_list_of_set_remove)
qed

text \<open>Sorting any enumeration of a set of keys, each once, gives the same list.\<close>

lemma sort_enumeration:
  assumes "distinct names" and "set names = fset A"
  shows "sort names = sorted_list_of_fset A"
proof -
  have "sort names = sorted_list_of_set (set names)"
    using assms(1) by (simp add: sorted_list_of_set_sort_remdups distinct_remdups_id)
  then show ?thesis
    using assms(2) by (simp add: sorted_list_of_fset.rep_eq)
qed

lemma SyncOrder_eq:
  assumes "distinct (Keys m)" and "set (Keys m) = fset (fmdom m)"
  shows "SyncOrder Keys m d = sorted_list_of_fset (fmdom m |-| {|d|}) @ [d]"
  by (simp add: SyncOrder_def Let_def sort_enumeration [OF assms] filter_sorted_list_of_fset)

lemma length_sorted_list_of_fset: "length (sorted_list_of_fset A) = fcard A"
  by (simp add: sorted_list_of_fset.rep_eq fcard.rep_eq)

lemma distinct_SyncOrder:
  assumes "distinct (Keys m)" and "set (Keys m) = fset (fmdom m)"
  shows "distinct (SyncOrder Keys m d)"
  by (simp add: SyncOrder_eq [of Keys m d, OF assms] sorted_list_of_fset.rep_eq)

lemma descending_Keys_enumerates:
  "distinct (descending_Keys m)" "set (descending_Keys m) = fset (fmdom m)"
  by (simp_all add: descending_Keys_def sorted_list_of_fset.rep_eq)

lemma descending_Keys_example: "descending_Keys example_dbs = [''postgres'', ''billing'', ''app'']"
  by (simp add: descending_Keys_def example_dbs_def sorted_list_of_fset.rep_eq)

text \<open>
  C10: for every map of databases \<open>m\<close>, every default name \<open>d\<close> and every order in
  which \<^verbatim>\<open>maps.Keys\<close> returns the keys of \<open>m\<close>, \<^verbatim>\<open>SyncOrder\<close> is the ascending list of the
  keys of \<open>m\<close> other than \<open>d\<close>, followed by \<open>d\<close>: \<open>d\<close> occurs exactly once, as the last
  element, and when \<open>d\<close> is not a key of \<open>m\<close> the result has one element more than \<open>m\<close>
  has databases.
\<close>

theorem SyncOrder_default_last:
  assumes "distinct (Keys m)" and "set (Keys m) = fset (fmdom m)"
  shows "SyncOrder Keys m d = sorted_list_of_fset (fmdom m |-| {|d|}) @ [d]
   \<and> sorted (butlast (SyncOrder Keys m d))
   \<and> distinct (butlast (SyncOrder Keys m d))
   \<and> set (butlast (SyncOrder Keys m d)) = fset (fmdom m) - {d}
   \<and> count_list (SyncOrder Keys m d) d = 1
   \<and> last (SyncOrder Keys m d) = d
   \<and> (d |\<notin>| fmdom m \<longrightarrow> length (SyncOrder Keys m d) = fcard (fmdom m) + 1)"
proof -
  have eq: "SyncOrder Keys m d = sorted_list_of_fset (fmdom m |-| {|d|}) @ [d]"
    using SyncOrder_eq [of Keys m d, OF assms] .
  have front: "butlast (SyncOrder Keys m d) = sorted_list_of_fset (fmdom m |-| {|d|})"
    by (simp add: eq)
  have "sorted (butlast (SyncOrder Keys m d))"
    and "distinct (butlast (SyncOrder Keys m d))"
    and "set (butlast (SyncOrder Keys m d)) = fset (fmdom m) - {d}"
    unfolding front by (simp_all add: sorted_list_of_fset.rep_eq)
  moreover have "d \<notin> set (sorted_list_of_fset (fmdom m |-| {|d|}))"
    by simp
  then have "count_list (SyncOrder Keys m d) d = 1"
    by (simp add: eq count_list_0_iff)
  moreover have "d |\<notin>| fmdom m \<longrightarrow> length (SyncOrder Keys m d) = fcard (fmdom m) + 1"
    by (simp add: eq length_sorted_list_of_fset)
  ultimately show ?thesis using eq by simp
qed

theorem SyncOrder_default_last_witness:
  "descending_Keys example_dbs = [''postgres'', ''billing'', ''app'']
   \<and> ''template1'' |\<notin>| fmdom example_dbs
   \<and> SyncOrder descending_Keys example_dbs ''template1''
       = [''app'', ''billing'', ''postgres'', ''template1'']
   \<and> SyncOrder descending_Keys example_dbs ''postgres'' = [''app'', ''billing'', ''postgres'']"
  using SyncOrder_default_last
      [of descending_Keys example_dbs "''template1''", OF descending_Keys_enumerates]
    SyncOrder_default_last
      [of descending_Keys example_dbs "''postgres''", OF descending_Keys_enumerates]
    descending_Keys_example
  by (simp add: example_dbs_def sorted_list_of_fset.rep_eq finsert_fminus_if)

subsection \<open>Role options: keys\<close>

lemma fmap_eq_on_keys:
  assumes "fmdom m = fset_of_list ks" and "fmdom n = fset_of_list ks"
    and "list_all (\<lambda>k. fmlookup m k = fmlookup n k) ks"
  shows "m = n"
proof (rule fmap_ext)
  fix x
  show "fmlookup m x = fmlookup n x"
  proof (cases "x \<in> set ks")
    case True
    with assms(3) show ?thesis by (simp add: list_all_iff)
  next
    case False
    then have "x |\<notin>| fmdom m" and "x |\<notin>| fmdom n"
      using assms(1,2) by (simp_all add: fset_of_list.rep_eq)
    then show ?thesis by (simp add: fmdom_notD)
  qed
qed

lemma known_keys_default: "fset_of_list (maps_Keys default_options) = fmdom default_options"
  by (simp add: maps_Keys_def)

lemma fmdom_default_options:
  "fmdom default_options = {|''SUPERUSER'', ''INHERIT'', ''CREATEROLE'', ''CREATEDB'', ''LOGIN'',
      ''REPLICATION'', ''BYPASSRLS'', ''CONNECTION LIMIT''|}"
  by (simp add: default_options_def)

lemma fcard_default_options: "fcard (fmdom default_options) = 8"
  by (simp add: fmdom_default_options fcard_finsert_if)

lemma fmdom_set_tokens: "fmdom v |\<subseteq>| fmdom (set_tokens v tokens)"
proof (induction tokens arbitrary: v)
  case Nil
  show ?case by simp
next
  case (Cons token tokens)
  have "fmdom v |\<subseteq>| fmdom (fmupd (TrimPrefix token ''NO'') (YBool (\<not> HasPrefix token ''NO'')) v)"
    by auto
  with Cons.IH show ?case
    by (auto simp del: fmdom_fmupd)
qed

lemma CheckSpuriousKeys_None:
  "CheckSpuriousKeys v ks = None \<longleftrightarrow> fmdom v |\<subseteq>| fset_of_list ks"
  by (auto simp: CheckSpuriousKeys_def Let_def)

text \<open>The check reads the known keys as a set: their order is irrelevant.\<close>

lemma CheckSpuriousKeys_set:
  "set ks = set ks' \<Longrightarrow> CheckSpuriousKeys v ks = CheckSpuriousKeys v ks'"
proof -
  assume "set ks = set ks'"
  then have "fset_of_list ks = fset_of_list ks'"
    by (metis fset_of_list.rep_eq fset_inject)
  then show ?thesis
    by (simp add: CheckSpuriousKeys_def)
qed

lemma NormalizeRoleOptions_dom:
  assumes "NormalizeRoleOptions yaml = Inr v"
  shows "fmdom v = fmdom default_options"
proof (cases yaml)
  case (YString s)
  with assms have v: "v = set_tokens default_options (Split_space s)"
    and "CheckSpuriousKeys v (maps_Keys default_options) = None"
    by (auto simp: NormalizeRoleOptions_def Let_def split: option.splits)
  then have "fmdom v |\<subseteq>| fmdom default_options"
    by (simp add: CheckSpuriousKeys_None known_keys_default)
  moreover have "fmdom default_options |\<subseteq>| fmdom v"
    unfolding v by (rule fmdom_set_tokens)
  ultimately show ?thesis by auto
next
  case (YMap m)
  with assms have v: "v = default_options ++\<^sub>f m"
    and "CheckSpuriousKeys v (maps_Keys default_options) = None"
    by (auto simp: NormalizeRoleOptions_def Let_def split: option.splits)
  then have "fmdom v |\<subseteq>| fmdom default_options"
    by (simp add: CheckSpuriousKeys_None known_keys_default)
  moreover have "fmdom default_options |\<subseteq>| fmdom v"
    unfolding v by auto
  ultimately show ?thesis by auto
qed (use assms in \<open>auto simp: NormalizeRoleOptions_def Let_def\<close>)

lemma NormalizeRoleOptions_map_example:
  "NormalizeRoleOptions
     (YMap (fmap_of_list [(''LOGIN'', YBool True), (''CONNECTION LIMIT'', YInt 5)]))
   = Inr (fmap_of_list
     [(''SUPERUSER'', YBool False),
      (''INHERIT'', YBool True),
      (''CREATEROLE'', YBool False),
      (''CREATEDB'', YBool False),
      (''LOGIN'', YBool True),
      (''REPLICATION'', YBool False),
      (''BYPASSRLS'', YBool False),
      (''CONNECTION LIMIT'', YInt 5)])"
proof -
  have "default_options ++\<^sub>f fmap_of_list [(''LOGIN'', YBool True), (''CONNECTION LIMIT'', YInt 5)]
    = fmap_of_list
     [(''SUPERUSER'', YBool False),
      (''INHERIT'', YBool True),
      (''CREATEROLE'', YBool False),
      (''CREATEDB'', YBool False),
      (''LOGIN'', YBool True),
      (''REPLICATION'', YBool False),
      (''BYPASSRLS'', YBool False),
      (''CONNECTION LIMIT'', YInt 5)]"
    by (rule fmap_eq_on_keys [where ks = "[''SUPERUSER'', ''INHERIT'', ''CREATEROLE'', ''CREATEDB'',
          ''LOGIN'', ''REPLICATION'', ''BYPASSRLS'', ''CONNECTION LIMIT'']"])
       (auto simp: default_options_def fmlookup_of_list)
  then show ?thesis
    by (simp add: NormalizeRoleOptions_def CheckSpuriousKeys_def known_keys_default
        fmdom_default_options)
qed

lemma NormalizeRoleOptions_string_example:
  "NormalizeRoleOptions (YString ''LOGIN NOINHERIT'')
   = Inr (fmap_of_list
     [(''SUPERUSER'', YBool False),
      (''INHERIT'', YBool False),
      (''CREATEROLE'', YBool False),
      (''CREATEDB'', YBool False),
      (''LOGIN'', YBool True),
      (''REPLICATION'', YBool False),
      (''BYPASSRLS'', YBool False),
      (''CONNECTION LIMIT'', YInt (- 1))])"
proof -
  have "set_tokens default_options (Split_space ''LOGIN NOINHERIT'')
    = fmap_of_list
     [(''SUPERUSER'', YBool False),
      (''INHERIT'', YBool False),
      (''CREATEROLE'', YBool False),
      (''CREATEDB'', YBool False),
      (''LOGIN'', YBool True),
      (''REPLICATION'', YBool False),
      (''BYPASSRLS'', YBool False),
      (''CONNECTION LIMIT'', YInt (- 1))]"
    by (rule fmap_eq_on_keys [where ks = "[''SUPERUSER'', ''INHERIT'', ''CREATEROLE'', ''CREATEDB'',
          ''LOGIN'', ''REPLICATION'', ''BYPASSRLS'', ''CONNECTION LIMIT'']"])
       (auto simp: default_options_def fmlookup_of_list Split_space_def HasPrefix_def
          TrimPrefix_def)
  then show ?thesis
    by (simp add: NormalizeRoleOptions_def CheckSpuriousKeys_def known_keys_default
        fmdom_default_options)
qed

text \<open>
  C3, as amended: for every input on which \<^verbatim>\<open>NormalizeRoleOptions\<close> succeeds, the keys of
  the map it returns are exactly the eight canonical keys \<^verbatim>\<open>SUPERUSER\<close>, \<^verbatim>\<open>INHERIT\<close>,
  \<^verbatim>\<open>CREATEROLE\<close>, \<^verbatim>\<open>CREATEDB\<close>, \<^verbatim>\<open>LOGIN\<close>, \<^verbatim>\<open>REPLICATION\<close>, \<^verbatim>\<open>BYPASSRLS\<close> and
  \<^verbatim>\<open>CONNECTION LIMIT\<close>, no more and no fewer.
\<close>

theorem NormalizeRoleOptions_eight_keys:
  assumes "NormalizeRoleOptions yaml = Inr v"
  shows "fmdom v = {|''SUPERUSER'', ''INHERIT'', ''CREATEROLE'', ''CREATEDB'', ''LOGIN'',
      ''REPLICATION'', ''BYPASSRLS'', ''CONNECTION LIMIT''|} \<and> fcard (fmdom v) = 8"
  using NormalizeRoleOptions_dom [OF assms] fmdom_default_options fcard_default_options
  by simp

theorem NormalizeRoleOptions_eight_keys_witness:
  "NormalizeRoleOptions
     (YMap (fmap_of_list [(''LOGIN'', YBool True), (''CONNECTION LIMIT'', YInt 5)]))
   = Inr (fmap_of_list
     [(''SUPERUSER'', YBool False),
      (''INHERIT'', YBool True),
      (''CREATEROLE'', YBool False),
      (''CREATEDB'', YBool False),
      (''LOGIN'', YBool True),
      (''REPLICATION'', YBool False),
      (''BYPASSRLS'', YBool False),
      (''CONNECTION LIMIT'', YInt 5)])
   \<and> fcard (fmdom (fmap_of_list
     [(''SUPERUSER'', YBool False),
      (''INHERIT'', YBool True),
      (''CREATEROLE'', YBool False),
      (''CREATEDB'', YBool False),
      (''LOGIN'', YBool True),
      (''REPLICATION'', YBool False),
      (''BYPASSRLS'', YBool False),
      (''CONNECTION LIMIT'', YInt 5)])) = 8"
  using NormalizeRoleOptions_eight_keys [OF NormalizeRoleOptions_map_example]
    NormalizeRoleOptions_map_example
  by simp

text \<open>
  The claim as stated counts nine keys. The options \<^verbatim>\<open>LOGIN NOINHERIT\<close> normalize to a
  map of eight keys.
\<close>

theorem NormalizeRoleOptions_nine_keys_counterexample:
  "NormalizeRoleOptions (YString ''LOGIN NOINHERIT'')
   = Inr (fmap_of_list
     [(''SUPERUSER'', YBool False),
      (''INHERIT'', YBool False),
      (''CREATEROLE'', YBool False),
      (''CREATEDB'', YBool False),
      (''LOGIN'', YBool True),
      (''REPLICATION'', YBool False),
      (''BYPASSRLS'', YBool False),
      (''CONNECTION LIMIT'', YInt (- 1))])
   \<and> fcard (fmdom (fmap_of_list
     [(''SUPERUSER'', YBool False),
      (''INHERIT'', YBool False),
      (''CREATEROLE'', YBool False),
      (''CREATEDB'', YBool False),
      (''LOGIN'', YBool True),
      (''REPLICATION'', YBool False),
      (''BYPASSRLS'', YBool False),
      (''CONNECTION LIMIT'', YInt (- 1))])) \<noteq> 9"
  by (simp add: NormalizeRoleOptions_string_example fcard_finsert_if fcard_fempty)

subsection \<open>Role options: defaults\<close>

lemma NormalizeRoleOptions_SUPERUSER_eval:
  "NormalizeRoleOptions (YString ''SUPERUSER'')
   = Inr (fmap_of_list
     [(''SUPERUSER'', YBool True),
      (''INHERIT'', YBool True),
      (''CREATEROLE'', YBool False),
      (''CREATEDB'', YBool False),
      (''LOGIN'', YBool False),
      (''REPLICATION'', YBool False),
      (''BYPASSRLS'', YBool False),
      (''CONNECTION LIMIT'', YInt (- 1))])"
proof -
  have "set_tokens default_options (Split_space ''SUPERUSER'')
    = fmap_of_list
     [(''SUPERUSER'', YBool True),
      (''INHERIT'', YBool True),
      (''CREATEROLE'', YBool False),
      (''CREATEDB'', YBool False),
      (''LOGIN'', YBool False),
      (''REPLICATION'', YBool False),
      (''BYPASSRLS'', YBool False),
      (''CONNECTION LIMIT'', YInt (- 1))]"
    by (rule fmap_eq_on_keys [where ks = "[''SUPERUSER'', ''INHERIT'', ''CREATEROLE'', ''CREATEDB'',
          ''LOGIN'', ''REPLICATION'', ''BYPASSRLS'', ''CONNECTION LIMIT'']"])
       (auto simp: default_options_def fmlookup_of_list Split_space_def HasPrefix_def
          TrimPrefix_def)
  then show ?thesis
    by (simp add: NormalizeRoleOptions_def CheckSpuriousKeys_def known_keys_default
        fmdom_default_options)
qed

text \<open>
  C8: \<^verbatim>\<open>NormalizeRoleOptions\<close> applied to the string \<^verbatim>\<open>SUPERUSER\<close> succeeds and returns
  the map with \<^verbatim>\<open>SUPERUSER\<close> and \<^verbatim>\<open>INHERIT\<close> true, the five other boolean options false
  and \<^verbatim>\<open>CONNECTION LIMIT\<close> at \<open>-1\<close>.
\<close>

theorem NormalizeRoleOptions_SUPERUSER:
  "NormalizeRoleOptions (YString ''SUPERUSER'')
   = Inr (fmap_of_list
     [(''SUPERUSER'', YBool True),
      (''INHERIT'', YBool True),
      (''CREATEROLE'', YBool False),
      (''CREATEDB'', YBool False),
      (''LOGIN'', YBool False),
      (''REPLICATION'', YBool False),
      (''BYPASSRLS'', YBool False),
      (''CONNECTION LIMIT'', YInt (- 1))])"
  by (rule NormalizeRoleOptions_SUPERUSER_eval)

subsection \<open>Role options: the string encoding\<close>






lemma Split_from_token:
  "CHR '' '' \<notin> set t \<Longrightarrow> Split_from cur (t @ rest) = Split_from (cur @ t) rest"
  by (induction t arbitrary: cur) auto

lemma Split_from_Join:
  "tokens \<noteq> [] \<Longrightarrow> (\<And>t. t \<in> set tokens \<Longrightarrow> CHR '' '' \<notin> set t) \<Longrightarrow>
     Split_from cur (Join_space tokens) = (cur @ hd tokens) # tl tokens"
proof (induction tokens arbitrary: cur rule: Join_space.induct)
  case 1
  then show ?case by simp
next
  case (2 t)
  then show ?case
    using Split_from_token [of t cur "[]"] by simp
next
  case (3 t u ts)
  have "Split_from cur (t @ CHR '' '' # Join_space (u # ts))
      = (cur @ t) # Split_from [] (Join_space (u # ts))"
    using "3.prems"(2) [of t] by (simp add: Split_from_token)
  also have "Split_from [] (Join_space (u # ts)) = u # ts"
    using "3.IH" [of "[]"] "3.prems"(2) by simp
  finally show ?case by simp
qed

lemma Split_space_Join:
  "tokens \<noteq> [] \<Longrightarrow> (\<And>t. t \<in> set tokens \<Longrightarrow> CHR '' '' \<notin> set t) \<Longrightarrow>
     Split_space (Join_space tokens) = tokens"
  using Split_from_Join [of tokens "[]"] by (simp add: Split_space_def)

lemma bool_token_known:
  assumes "T \<in> {''SUPERUSER'', ''CREATEROLE'', ''CREATEDB'', ''LOGIN'', ''REPLICATION'',
      ''BYPASSRLS'', ''INHERIT''}"
  shows "TrimPrefix (bool_token b T) ''NO'' = T"
    and "HasPrefix (bool_token b T) ''NO'' = (\<not> b)"
    and "bool_token b T \<noteq> []"
    and "[] \<noteq> bool_token b T"
    and "CHR '' '' \<notin> set (bool_token b T)"
  using assms by (auto simp: bool_token_def TrimPrefix_def HasPrefix_def)




text \<open>
  A token that is not one of the seven boolean tokens or their \<^verbatim>\<open>NO\<close> forms makes the
  decoder fail: the key it sets is spurious. So does any token of a connection limit.
\<close>

lemma fmdom_set_tokens_token:
  "t \<in> set tokens \<Longrightarrow> t \<noteq> [] \<Longrightarrow> TrimPrefix t ''NO'' |\<in>| fmdom (set_tokens v tokens)"
proof (induction tokens arbitrary: v)
  case Nil
  then show ?case by simp
next
  case (Cons token tokens)
  show ?case
  proof (cases "t = token")
    case True
    have "TrimPrefix t ''NO''
        |\<in>| fmdom (fmupd (TrimPrefix t ''NO'') (YBool (\<not> HasPrefix t ''NO'')) v)"
      by simp
    then have "TrimPrefix t ''NO''
        |\<in>| fmdom (set_tokens (fmupd (TrimPrefix t ''NO'') (YBool (\<not> HasPrefix t ''NO'')) v)
              tokens)"
      using fmdom_set_tokens by blast
    with True Cons.prems(2) show ?thesis by auto
  next
    case False
    with Cons.prems have "t \<in> set tokens" by simp
    from Cons.IH [OF this Cons.prems(2)] show ?thesis by simp
  qed
qed

lemma NormalizeRoleOptions_unknown_token:
  assumes "t \<in> set (Split_space s)" and "t \<noteq> []"
    and "TrimPrefix t ''NO'' |\<notin>| fmdom default_options"
  shows "\<exists>err. NormalizeRoleOptions (YString s) = Inl err"
proof -
  have "TrimPrefix t ''NO'' |\<in>| fmdom (set_tokens default_options (Split_space s))"
    using assms(1,2) by (rule fmdom_set_tokens_token)
  with assms(3) have "\<not> fmdom (set_tokens default_options (Split_space s))
      |\<subseteq>| fmdom default_options"
    by auto
  then have "CheckSpuriousKeys (set_tokens default_options (Split_space s))
      (maps_Keys default_options) \<noteq> None"
    by (simp add: CheckSpuriousKeys_None known_keys_default)
  then show ?thesis
    by (auto simp: NormalizeRoleOptions_def Let_def split: option.splits)
qed

lemma digits_no_space: "CHR '' '' \<notin> set (digits n)"
proof (induction n rule: digits.induct)
  case (1 n)
  have digit: "''0123456789'' ! k \<noteq> CHR '' ''" if "k < 10" for k
  proof -
    from that have "''0123456789'' ! k \<in> set ''0123456789''"
      by (intro nth_mem) simp
    then show ?thesis by auto
  qed
  show ?case
  proof (cases "n < 10")
    case True
    then show ?thesis
      using digit [of n] by (subst digits.simps) simp
  next
    case False
    then show ?thesis
      using "1.IH" digit [of "n mod 10"] by (subst digits.simps) simp
  qed
qed

lemma decimal_no_space: "CHR '' '' \<notin> set (decimal i)"
  by (simp add: decimal_def digits_no_space)

text \<open>
  With the connection limit listed as \<^verbatim>\<open>CONNECTION LIMIT n\<close>, the string of no value
  at all decodes, the default limit included.
\<close>

lemma RoleOptions_String_not_decoded:
  "\<exists>err. NormalizeRoleOptions (YString (RoleOptions_String opts)) = Inl err"
proof -
  let ?tokens = "bool_tokens opts @ [''CONNECTION'', ''LIMIT'', decimal (ConnLimit opts)]"
  have "Split_space (Join_space ?tokens) = ?tokens"
    by (rule Split_space_Join)
       (auto simp: bool_tokens_def bool_token_known decimal_no_space)
  then have "''CONNECTION'' \<in> set (Split_space (RoleOptions_String opts))"
    by (simp add: RoleOptions_String_def)
  moreover have "TrimPrefix ''CONNECTION'' ''NO'' |\<notin>| fmdom default_options"
    by (simp add: TrimPrefix_def HasPrefix_def fmdom_default_options)
  ultimately show ?thesis
    by (intro NormalizeRoleOptions_unknown_token [of "''CONNECTION''"]) simp_all
qed

lemma RoleOptions_String_limited:
  "RoleOptions_String limited_opts =
     ''NOSUPERUSER NOCREATEROLE NOCREATEDB LOGIN NOREPLICATION NOBYPASSRLS INHERIT CONNECTION LIMIT 5''"
  by (simp add: RoleOptions_String_def bool_tokens_def limited_opts_def login_opts_def
      bool_token_def decimal_def digits.simps)






subsection \<open>Name expansion\<close>

lemma fold_copy_lookup:
  "distinct (map fst kvs) \<Longrightarrow>
   fmlookup (fold (\<lambda>(key, v) rule. if ''names'' = key then rule else fmupd key v rule) kvs init) k
     = (if k \<noteq> ''names'' \<and> k \<in> fst ` set kvs then map_of kvs k else fmlookup init k)"
proof (induction kvs arbitrary: init)
  case Nil
  show ?case by simp
next
  case (Cons kv kvs)
  obtain key v where kv: "kv = (key, v)" by (cases kv)
  from Cons.prems have d: "distinct (map fst kvs)" and notin: "key \<notin> fst ` set kvs"
    by (simp_all add: kv)
  show ?case
    using Cons.IH [OF d] notin by (auto simp: kv)
qed

lemma map_fst_range_map: "map fst (range_map m) = maps_Keys m"
  by (simp add: range_map_def comp_def)

lemma set_maps_Keys: "set (maps_Keys m) = fset (fmdom m)"
  by (simp add: maps_Keys_def)

lemma distinct_maps_Keys: "distinct (maps_Keys m)"
  by (simp add: maps_Keys_def sorted_list_of_fset.rep_eq)

lemma map_of_range_map: "map_of (range_map m) = fmlookup m"
proof
  fix k
  show "map_of (range_map m) k = fmlookup m k"
  proof (cases "fmlookup m k")
    case None
    then have "k \<notin> fst ` set (range_map m)"
      using set_maps_Keys [of m] map_fst_range_map [of m]
      by (metis fmdom_notI list.set_map)
    with None show ?thesis by (simp add: map_of_eq_None_iff)
  next
    case (Some v)
    then have "k \<in> set (maps_Keys m)"
      by (simp add: set_maps_Keys fmdomI)
    then have "(k, index m k) \<in> set (range_map m)"
      by (auto simp: range_map_def)
    moreover have "distinct (map fst (range_map m))"
      by (simp add: map_fst_range_map distinct_maps_Keys)
    ultimately have "map_of (range_map m) k = Some (index m k)"
      by simp
    with Some show ?thesis by (simp add: index_def)
  qed
qed

text \<open>
  The rule built for one name, whatever the order in which the entries are visited:
  the entries of \<open>yaml\<close> but \<^verbatim>\<open>names\<close>, over the single entry \<^verbatim>\<open>name\<close>. An entry
  \<^verbatim>\<open>name\<close> of \<open>yaml\<close> would replace the single name.
\<close>

lemma single_rule_eq:
  "single_rule yaml name = fmupd ''name'' (YString name) fmempty ++\<^sub>f fmdrop ''names'' yaml"
proof (rule fmap_ext)
  fix k
  have d: "distinct (map fst (range_map yaml))"
    by (simp add: map_fst_range_map distinct_maps_Keys)
  have dom: "k \<in> fst ` set (range_map yaml) \<longleftrightarrow> k |\<in>| fmdom yaml"
    using map_fst_range_map [of yaml] set_maps_Keys [of yaml] by (metis list.set_map)
  show "fmlookup (single_rule yaml name) k
      = fmlookup (fmupd ''name'' (YString name) fmempty ++\<^sub>f fmdrop ''names'' yaml) k"
    unfolding single_rule_def fold_copy_lookup [OF d] dom map_of_range_map
    by (auto simp: fmlookup_dom_iff)
qed

text \<open>
  Every order in which the entries of the map are visited builds the same rule.
\<close>

lemma single_rule_any_order:
  assumes "distinct (map fst kvs)" and "map_of kvs = fmlookup yaml"
  shows "fold (\<lambda>(key, v) rule. if ''names'' = key then rule else fmupd key v rule)
           kvs (fmupd ''name'' (YString name) fmempty)
         = single_rule yaml name"
proof (rule fmap_ext)
  fix k
  have d: "distinct (map fst (range_map yaml))"
    by (simp add: map_fst_range_map distinct_maps_Keys)
  have "k \<in> fst ` set kvs \<longleftrightarrow> k \<in> fst ` set (range_map yaml)"
    using assms(2) map_of_range_map [of yaml]
    by (metis map_of_eq_None_iff)
  then show "fmlookup (fold (\<lambda>(key, v) rule. if ''names'' = key then rule else fmupd key v rule)
           kvs (fmupd ''name'' (YString name) fmempty)) k
         = fmlookup (single_rule yaml name) k"
    unfolding single_rule_def fold_copy_lookup [OF d] fold_copy_lookup [OF assms(1)]
    by (simp add: assms(2) map_of_range_map)
qed

lemma single_rule_no_name:
  "''name'' |\<notin>| fmdom yaml \<Longrightarrow>
     single_rule yaml name = fmupd ''name'' (YString name) (fmdrop ''names'' yaml)"
  unfolding single_rule_eq
  by (rule fmap_ext) (auto simp: fmlookup_dom_iff)

lemma NormalizeRoleRule_normal:
  assumes "NormalizeRoleRule y = Inr rule"
  shows "\<exists>names. fmlookup rule ''names'' = Some (YStringList names)"
    and "fmdom rule |\<subseteq>| {|''names'', ''comment'', ''parents'', ''options''|}"
proof -
  have "(\<exists>names. fmlookup rule ''names'' = Some (YStringList names))
      \<and> CheckSpuriousKeys rule [''names'', ''comment'', ''parents'', ''options''] = None"
    using assms
    by (cases y)
      (auto simp: NormalizeRoleRule_def Let_def split: option.splits sum.splits)
  then show "\<exists>names. fmlookup rule ''names'' = Some (YStringList names)"
    and "fmdom rule |\<subseteq>| {|''names'', ''comment'', ''parents'', ''options''|}"
    by (simp_all add: CheckSpuriousKeys_None)
qed

lemma NormalizeRoleRule_example: "NormalizeRoleRule example_rule_yaml = Inr example_rule"
proof -
  let ?opts = "YMap (fmap_of_list
         [(''SUPERUSER'', YBool True),
          (''INHERIT'', YBool True),
          (''CREATEROLE'', YBool False),
          (''CREATEDB'', YBool False),
          (''LOGIN'', YBool False),
          (''REPLICATION'', YBool False),
          (''BYPASSRLS'', YBool False),
          (''CONNECTION LIMIT'', YInt (- 1))])"
  have "fmupd ''options'' ?opts
     (fmupd ''parents'' (YStringList [])
       (fmupd ''names'' (YStringList [''a'', ''b'', ''c''])
         (fmap_of_list
            [(''comment'', YString ''Managed by ldap2pg''),
             (''options'', YString []),
             (''parents'', YStringList [])] ++\<^sub>f
          fmap_of_list
            [(''names'', YList [YString ''a'', YString ''b'', YString ''c'']),
             (''comment'', YString ''x''),
             (''options'', YString ''SUPERUSER'')]))) = example_rule"
    by (rule fmap_eq_on_keys [where ks = "[''names'', ''comment'', ''parents'', ''options'']"])
       (auto simp: example_rule_def fmlookup_of_list)
  then show ?thesis
    by (simp add: NormalizeRoleRule_def example_rule_yaml_def NormalizeAlias_def
        fmlookup_of_list NormalizeStringList_def index_def NormalizeRoleOptions_SUPERUSER_eval
        CheckSpuriousKeys_def)
qed

lemma example_rule_names:
  "fmlookup example_rule ''names'' = Some (YStringList [''a'', ''b'', ''c''])"
  by (simp add: example_rule_def fmlookup_of_list)

text \<open>
  C7: for every normalized role rule, whose \<^verbatim>\<open>names\<close> list has N elements,
  \<^verbatim>\<open>DuplicateRoleRules\<close> returns exactly N rules, one per name in the order of the list.
  Each of them has no \<^verbatim>\<open>names\<close> key, carries its single name under \<^verbatim>\<open>name\<close> and carries
  every other field of the rule (\<^verbatim>\<open>comment\<close>, \<^verbatim>\<open>parents\<close>, \<^verbatim>\<open>options\<close>) unchanged: it is the
  rule with \<^verbatim>\<open>names\<close> dropped and \<^verbatim>\<open>name\<close> set.
\<close>

theorem DuplicateRoleRules_one_rule_per_name:
  assumes "NormalizeRoleRule y = Inr rule"
  shows "\<exists>names rules.
      fmlookup rule ''names'' = Some (YStringList names)
    \<and> DuplicateRoleRules rule = Some rules
    \<and> rules = map (\<lambda>name. fmupd ''name'' (YString name) (fmdrop ''names'' rule)) names
    \<and> length rules = length names
    \<and> list_all2 (\<lambda>name r.
          ''names'' |\<notin>| fmdom r
        \<and> fmlookup r ''name'' = Some (YString name)
        \<and> fmlookup r ''comment'' = fmlookup rule ''comment''
        \<and> fmlookup r ''parents'' = fmlookup rule ''parents''
        \<and> fmlookup r ''options'' = fmlookup rule ''options''
        \<and> fmdom r = finsert ''name'' (fmdom rule |-| {|''names''|})) names rules"
proof -
  from NormalizeRoleRule_normal [OF assms] obtain names
    where names: "fmlookup rule ''names'' = Some (YStringList names)"
      and dom: "fmdom rule |\<subseteq>| {|''names'', ''comment'', ''parents'', ''options''|}"
    by blast
  from dom have no_name: "''name'' |\<notin>| fmdom rule"
    by auto
  let ?rules = "map (\<lambda>name. fmupd ''name'' (YString name) (fmdrop ''names'' rule)) names"
  have "DuplicateRoleRules rule = Some ?rules"
    by (simp add: DuplicateRoleRules_def names single_rule_no_name [OF no_name])
  moreover have "list_all2 (\<lambda>name r.
          ''names'' |\<notin>| fmdom r
        \<and> fmlookup r ''name'' = Some (YString name)
        \<and> fmlookup r ''comment'' = fmlookup rule ''comment''
        \<and> fmlookup r ''parents'' = fmlookup rule ''parents''
        \<and> fmlookup r ''options'' = fmlookup rule ''options''
        \<and> fmdom r = finsert ''name'' (fmdom rule |-| {|''names''|})) names ?rules"
    by (simp add: list_all2_map2 list.rel_refl)
  ultimately show ?thesis
    using names by simp
qed

theorem DuplicateRoleRules_one_rule_per_name_witness:
  "NormalizeRoleRule example_rule_yaml = Inr example_rule
   \<and> DuplicateRoleRules example_rule = Some
       [fmupd ''name'' (YString ''a'') (fmdrop ''names'' example_rule),
        fmupd ''name'' (YString ''b'') (fmdrop ''names'' example_rule),
        fmupd ''name'' (YString ''c'') (fmdrop ''names'' example_rule)]"
  using DuplicateRoleRules_one_rule_per_name [OF NormalizeRoleRule_example]
    NormalizeRoleRule_example example_rule_names
  by auto

subsection \<open>Schema rows\<close>

text \<open>
  C9: for every schema inspection row, \<^verbatim>\<open>RowToSchema\<close> is the scan of the row into the
  name alone when the row has exactly one column, the scan into the name and the owner
  when it has exactly two, and for any other number of columns it returns the error
  ``wrong number of returned columns'' with the zero schema, whatever \<^verbatim>\<open>Scan\<close> would
  do: the row is not scanned.
\<close>

theorem RowToSchema_by_column_count:
  "(length (FieldDescriptions row) = 1 \<longrightarrow>
      RowToSchema row = Scan row [Name_ptr] zero_Schema)
   \<and> (length (FieldDescriptions row) = 2 \<longrightarrow>
      RowToSchema row = Scan row [Name_ptr, Owner_ptr] zero_Schema)
   \<and> (length (FieldDescriptions row) \<noteq> 1 \<and> length (FieldDescriptions row) \<noteq> 2 \<longrightarrow>
      RowToSchema row = (zero_Schema, Some (Errorf ''wrong number of returned columns''))
      \<and> (\<forall>scan. RowToSchema (row\<lparr>Scan := scan\<rparr>) = RowToSchema row))"
  by (simp add: RowToSchema_def Let_def)

theorem RowToSchema_by_column_count_witness:
  "RowToSchema (text_row [''nspname''] [''public''])
     = (\<lparr>Schema_Name = ''public'', Schema_Owner = [], Creators = []\<rparr>, None)
   \<and> RowToSchema (text_row [''nspname'', ''rolname''] [''public'', ''alice''])
     = (\<lparr>Schema_Name = ''public'', Schema_Owner = ''alice'', Creators = []\<rparr>, None)
   \<and> RowToSchema (text_row [''nspname'', ''rolname'', ''oid''] [''public'', ''alice'', ''2200''])
     = (\<lparr>Schema_Name = [], Schema_Owner = [], Creators = []\<rparr>,
        Some (Errorf ''wrong number of returned columns''))"
  using RowToSchema_by_column_count [of "text_row [''nspname''] [''public'']"]
    RowToSchema_by_column_count [of "text_row [''nspname'', ''rolname''] [''public'', ''alice'']"]
    RowToSchema_by_column_count
      [of "text_row [''nspname'', ''rolname'', ''oid''] [''public'', ''alice'', ''2200'']"]
  by (simp add: text_row_def zero_Schema_def Name_ptr_def Owner_ptr_def)

subsection \<open>Dropping a role\<close>

lemma Drop_maps:
  "map Description (Drop S D r dbs)
     = ''Terminate running sessions.''
       # replicate (length dbs) ''Reassign objects and purge ACL.'' @ [''Drop role.'']"
  "map Database (Drop S D r dbs) = [] # dbs @ [[]]"
  "map Query (Drop S D r dbs)
     = D terminate_sql # replicate (length dbs) (D (reassign_sql (S [Name r])))
       @ [''DROP ROLE '' @ S [Name r] @ '';'']"
  "map QueryArgs (Drop S D r dbs) = [AString (Name r)] # replicate (length dbs) [] @ [[]]"
  by (simp_all add: Drop_def Let_def comp_def map_replicate_const)

text \<open>The SQL of the two literals of \<^verbatim>\<open>Drop\<close>, character by character.\<close>

lemma terminate_sql_text:
  "terminate_sql =
     [CHR 0x0A, CHR 0x09, CHR 0x09] @ ''SELECT pg_terminate_backend(pid)''
     @ [CHR 0x0A, CHR 0x09, CHR 0x09] @ ''FROM pg_catalog.pg_stat_activity''
     @ [CHR 0x0A, CHR 0x09, CHR 0x09] @ ''WHERE usename = $1;''
     @ [CHR 0x0A, CHR 0x09, CHR 0x09]"
  by (simp add: terminate_sql_def nl_def tab_def)

lemma reassign_sql_text:
  "reassign_sql identifier =
     [CHR 0x0A, CHR 0x09, CHR 0x09, CHR 0x09] @ ''REASSIGN OWNED BY '' @ identifier
     @ '' TO CURRENT_USER;''
     @ [CHR 0x0A, CHR 0x09, CHR 0x09, CHR 0x09] @ ''DROP OWNED BY '' @ identifier @ '';''"
  by (simp add: reassign_sql_def nl_def tab_def)

text \<open>
  C2: for every role and every list of database names that \<^verbatim>\<open>SyncOrder\<close> produces (the
  names other than the default in ascending order, then the default, each once,
  whatever the order of \<^verbatim>\<open>maps.Keys\<close>), \<^verbatim>\<open>Drop\<close> sends, in this order: one query that
  terminates the sessions of the role, \<^verbatim>\<open>SELECT pg_terminate_backend(pid) FROM
  pg_catalog.pg_stat_activity WHERE usename = $1;\<close> with the name of the role as its
  bound parameter; for each database of the list, in the order of the list, one query
  \<^verbatim>\<open>REASSIGN OWNED BY <identifier> TO CURRENT_USER; DROP OWNED BY <identifier>;\<close>
  targeted at that database; one query \<^verbatim>\<open>DROP ROLE <identifier>;\<close>. Whatever the
  sanitizer \<open>S\<close> makes of the name and the dedenter \<open>D\<close> of the indented literals.
\<close>

theorem Drop_SyncOrder_queries:
  assumes "distinct (Keys m)" and "set (Keys m) = fset (fmdom m)"
  shows "map Description (Drop S D r (SyncOrder Keys m d))
     = ''Terminate running sessions.''
       # replicate (length (SyncOrder Keys m d)) ''Reassign objects and purge ACL.''
       @ [''Drop role.'']
   \<and> map Database (Drop S D r (SyncOrder Keys m d)) = [] # SyncOrder Keys m d @ [[]]
   \<and> map Query (Drop S D r (SyncOrder Keys m d))
     = D ([CHR 0x0A, CHR 0x09, CHR 0x09] @ ''SELECT pg_terminate_backend(pid)''
          @ [CHR 0x0A, CHR 0x09, CHR 0x09] @ ''FROM pg_catalog.pg_stat_activity''
          @ [CHR 0x0A, CHR 0x09, CHR 0x09] @ ''WHERE usename = $1;''
          @ [CHR 0x0A, CHR 0x09, CHR 0x09])
       # replicate (length (SyncOrder Keys m d))
           (D ([CHR 0x0A, CHR 0x09, CHR 0x09, CHR 0x09] @ ''REASSIGN OWNED BY '' @ S [Name r]
               @ '' TO CURRENT_USER;''
               @ [CHR 0x0A, CHR 0x09, CHR 0x09, CHR 0x09] @ ''DROP OWNED BY '' @ S [Name r]
               @ '';''))
       @ [''DROP ROLE '' @ S [Name r] @ '';'']
   \<and> map QueryArgs (Drop S D r (SyncOrder Keys m d))
     = [AString (Name r)] # replicate (length (SyncOrder Keys m d)) [] @ [[]]
   \<and> SyncOrder Keys m d = sorted_list_of_fset (fmdom m |-| {|d|}) @ [d]
   \<and> distinct (SyncOrder Keys m d)"
  using Drop_maps [of S D r "SyncOrder Keys m d"] SyncOrder_eq [of Keys m d, OF assms]
    distinct_SyncOrder [of Keys m d, OF assms]
  unfolding terminate_sql_text reassign_sql_text
  by simp

theorem Drop_SyncOrder_queries_witness:
  "descending_Keys example_dbs = [''postgres'', ''billing'', ''app'']
   \<and> map Description
       (Drop example_Sanitize id example_role (SyncOrder descending_Keys example_dbs ''postgres''))
     = [''Terminate running sessions.'', ''Reassign objects and purge ACL.'',
        ''Reassign objects and purge ACL.'', ''Reassign objects and purge ACL.'',
        ''Drop role.'']
   \<and> map Database
       (Drop example_Sanitize id example_role (SyncOrder descending_Keys example_dbs ''postgres''))
     = [[], ''app'', ''billing'', ''postgres'', []]
   \<and> map Query
       (Drop example_Sanitize id example_role (SyncOrder descending_Keys example_dbs ''postgres''))
     = [[CHR 0x0A, CHR 0x09, CHR 0x09] @ ''SELECT pg_terminate_backend(pid)''
          @ [CHR 0x0A, CHR 0x09, CHR 0x09] @ ''FROM pg_catalog.pg_stat_activity''
          @ [CHR 0x0A, CHR 0x09, CHR 0x09] @ ''WHERE usename = $1;''
          @ [CHR 0x0A, CHR 0x09, CHR 0x09],
        [CHR 0x0A, CHR 0x09, CHR 0x09, CHR 0x09] @ ''REASSIGN OWNED BY '' @ [CHR 0x22]
          @ ''alice'' @ [CHR 0x22] @ '' TO CURRENT_USER;''
          @ [CHR 0x0A, CHR 0x09, CHR 0x09, CHR 0x09] @ ''DROP OWNED BY '' @ [CHR 0x22]
          @ ''alice'' @ [CHR 0x22] @ '';'',
        [CHR 0x0A, CHR 0x09, CHR 0x09, CHR 0x09] @ ''REASSIGN OWNED BY '' @ [CHR 0x22]
          @ ''alice'' @ [CHR 0x22] @ '' TO CURRENT_USER;''
          @ [CHR 0x0A, CHR 0x09, CHR 0x09, CHR 0x09] @ ''DROP OWNED BY '' @ [CHR 0x22]
          @ ''alice'' @ [CHR 0x22] @ '';'',
        [CHR 0x0A, CHR 0x09, CHR 0x09, CHR 0x09] @ ''REASSIGN OWNED BY '' @ [CHR 0x22]
          @ ''alice'' @ [CHR 0x22] @ '' TO CURRENT_USER;''
          @ [CHR 0x0A, CHR 0x09, CHR 0x09, CHR 0x09] @ ''DROP OWNED BY '' @ [CHR 0x22]
          @ ''alice'' @ [CHR 0x22] @ '';'',
        ''DROP ROLE '' @ [CHR 0x22] @ ''alice'' @ [CHR 0x22] @ '';'']
   \<and> map QueryArgs
       (Drop example_Sanitize id example_role (SyncOrder descending_Keys example_dbs ''postgres''))
     = [[AString ''alice''], [], [], [], []]"
proof -
  have order: "SyncOrder descending_Keys example_dbs ''postgres'' = [''app'', ''billing'', ''postgres'']"
    using SyncOrder_eq [of descending_Keys example_dbs "''postgres''", OF descending_Keys_enumerates]
    by (simp add: example_dbs_def sorted_list_of_fset.rep_eq finsert_fminus_if)
  show ?thesis
    using Drop_SyncOrder_queries
        [of descending_Keys example_dbs example_Sanitize id example_role "''postgres''",
          OF descending_Keys_enumerates]
      descending_Keys_example
    unfolding order
    by (simp add: example_role_def example_Sanitize_def)
qed

subsection \<open>Altering a role\<close>

lemma limited_opts_differ: "limited_opts \<noteq> login_opts"
proof
  assume "limited_opts = login_opts"
  then have "ConnLimit limited_opts = ConnLimit login_opts" by simp
  then show False by (simp add: limited_opts_def login_opts_def)
qed

text \<open>
  C6: for every current role \<open>r\<close> and wanted role of the same name, \<^verbatim>\<open>Alter\<close> sends
  exactly one statement, \<^verbatim>\<open>ALTER ROLE <sanitized name> WITH <options>;\<close> with the
  SQL-token encoding of the wanted options, when the options differ, and no statement
  when they are equal; in particular none when the wanted role equals the current one
  field for field.
\<close>

theorem Alter_one_statement_iff_options_differ:
  assumes "Name r = Name wanted"
  shows "(Options wanted \<noteq> Options r \<longrightarrow>
      (\<exists>q. Alter S r wanted = [q]
         \<and> Query q = ''ALTER ROLE '' @ S [Name wanted] @ '' WITH ''
             @ RoleOptions_String (Options wanted) @ '';''))
   \<and> (Options wanted = Options r \<longrightarrow> Alter S r wanted = [])
   \<and> (wanted = r \<longrightarrow> Alter S r wanted = [])"
proof -
  have "Options wanted \<noteq> Options r \<longrightarrow>
      (\<exists>q. Alter S r wanted = [q]
         \<and> Query q = ''ALTER ROLE '' @ S [Name wanted] @ '' WITH ''
             @ RoleOptions_String (Options wanted) @ '';'')"
    by (simp add: Alter_def Let_def assms)
  moreover have "Options wanted = Options r \<longrightarrow> Alter S r wanted = []"
    by (simp add: Alter_def Let_def)
  moreover have "wanted = r \<longrightarrow> Alter S r wanted = []"
    by (simp add: Alter_def Let_def)
  ultimately show ?thesis by blast
qed

theorem Alter_one_statement_iff_options_differ_witness:
  "Name example_role = Name (example_role\<lparr>Options := limited_opts\<rparr>)
   \<and> map Query (Alter example_Sanitize example_role (example_role\<lparr>Options := limited_opts\<rparr>))
     = [''ALTER ROLE '' @ [CHR 0x22] @ ''alice'' @ [CHR 0x22] @ '' WITH NOSUPERUSER NOCREATEROLE NOCREATEDB LOGIN NOREPLICATION NOBYPASSRLS INHERIT CONNECTION LIMIT 5;'']
   \<and> Alter example_Sanitize example_role example_role = []"
proof -
  have name: "Name example_role = Name (example_role\<lparr>Options := limited_opts\<rparr>)"
    by simp
  have opts: "Options (example_role\<lparr>Options := limited_opts\<rparr>) \<noteq> Options example_role"
    using limited_opts_differ by (simp add: example_role_def)
  from Alter_one_statement_iff_options_differ [OF name, of example_Sanitize] opts
  obtain q
    where q: "Alter example_Sanitize example_role (example_role\<lparr>Options := limited_opts\<rparr>) = [q]"
      and "Query q = ''ALTER ROLE ''
          @ example_Sanitize [Name (example_role\<lparr>Options := limited_opts\<rparr>)] @ '' WITH ''
          @ RoleOptions_String (Options (example_role\<lparr>Options := limited_opts\<rparr>)) @ '';''"
    by blast
  then have "Query q = ''ALTER ROLE '' @ [CHR 0x22] @ ''alice'' @ [CHR 0x22] @ '' WITH NOSUPERUSER NOCREATEROLE NOCREATEDB LOGIN NOREPLICATION NOBYPASSRLS INHERIT CONNECTION LIMIT 5;''"
    by (simp add: example_role_def example_Sanitize_def RoleOptions_String_limited)
  moreover have "Alter example_Sanitize example_role example_role = []"
    using Alter_one_statement_iff_options_differ [of example_role example_role example_Sanitize]
    by simp
  ultimately show ?thesis
    using name q by simp
qed


end
